theory Spec2Isabelle
  imports Main
begin

section \<open>Python values, truthiness and errors\<close>

text \<open>
  The exceptions the module raises, or lets through from the calls it makes, are values:
  a function that may raise returns \<open>error + 'a\<close>, with \<open>Inl\<close> for the exception.
  \<open>FieldDoesNotExist\<close> is what \<^verbatim>\<open>model._meta.get_field\<close> raises for an unknown field name.
\<close>

datatype error =
    ValueError string
  | TypeError string
  | RuntimeError string
  | FieldDoesNotExist string

text \<open>
  The values a \<^verbatim>\<open>SoftDelete\<close> may be configured with: \<^verbatim>\<open>None\<close>, a boolean, an integer, a
  string, or a value of any other type (a float, a decimal, a date), which is given by the
  text that \<^verbatim>\<open>str\<close> prints for it, the only thing \<^verbatim>\<open>_render_value\<close> asks of it.
\<close>

datatype pyval = PyNone | PyBool bool | PyInt int | PyStr string | PyOther string

text \<open>
  \<^verbatim>\<open>x or y\<close> on an optional string or list: \<^verbatim>\<open>None\<close> and the empty sequence are falsy.
\<close>

definition truthy :: "'a list option \<Rightarrow> bool" where
  "truthy x = (case x of None \<Rightarrow> False | Some v \<Rightarrow> v \<noteq> [])"

definition py_or :: "'a list option \<Rightarrow> 'a list option \<Rightarrow> 'a list option" where
  "py_or x y = (if truthy x then x else y)"

text \<open>\<^verbatim>\<open>sep.join(xs)\<close>.\<close>

fun join :: "string \<Rightarrow> string list \<Rightarrow> string" where
  "join sep [] = []"
| "join sep [x] = x"
| "join sep (x # y # ys) = x @ sep @ join sep (y # ys)"

text \<open>\<^verbatim>\<open>str(n)\<close> for an integer: decimal digits, a minus sign for a negative number.\<close>

definition digit_char :: "nat \<Rightarrow> char" where
  "digit_char d = char_of (48 + d)"

fun str_nat :: "nat \<Rightarrow> string" where
  "str_nat n = (if n < 10 then [digit_char n] else str_nat (n div 10) @ [digit_char (n mod 10)])"

declare str_nat.simps [simp del]

definition str_int :: "int \<Rightarrow> string" where
  "str_int i = (if i < 0 then CHR ''-'' # str_nat (nat (- i)) else str_nat (nat i))"

text \<open>\<^verbatim>\<open>str(v)\<close> for the configured values.\<close>

fun py_str :: "pyval \<Rightarrow> string" where
  "py_str PyNone = ''None''"
| "py_str (PyBool b) = (if b then ''True'' else ''False'')"
| "py_str (PyInt i) = str_int i"
| "py_str (PyStr s) = s"
| "py_str (PyOther printed) = printed"

text \<open>\<^verbatim>\<open>s.lower()\<close> on ASCII text: the letters A to Z move to a to z, every other character stays.\<close>

definition lower_char :: "char \<Rightarrow> char" where
  "lower_char c = (let n = (of_char c :: nat) in if 65 \<le> n \<and> n \<le> 90 then char_of (n + 32) else c)"

definition lower :: "string \<Rightarrow> string" where
  "lower s = map lower_char s"

section \<open>Model metadata\<close>

text \<open>
  What the module reads from \<^verbatim>\<open>model._meta\<close>: the table name, the primary key's column and,
  for a field name, its column. A field name the model does not have makes
  \<^verbatim>\<open>get_field\<close> raise.
\<close>

record model =
  db_table :: string
  pk_column :: string
  field_column :: "string \<Rightarrow> string option"

definition get_field_column :: "model \<Rightarrow> string option \<Rightarrow> error + string" where
  "get_field_column m f =
     (case f of
        None \<Rightarrow> Inl (FieldDoesNotExist ''None'')
      | Some fld \<Rightarrow>
          (case field_column m fld of
             None \<Rightarrow> Inl (FieldDoesNotExist fld)
           | Some col \<Rightarrow> Inr col))"

section \<open>The base trigger\<close>

text \<open>
  Modelled from the spec: \<^verbatim>\<open>core.Before\<close>, \<^verbatim>\<open>core.Insert\<close>, \<^verbatim>\<open>core.Update\<close>, \<^verbatim>\<open>core.Delete\<close>,
  \<^verbatim>\<open>core.UpdateOf\<close> and the \<^verbatim>\<open>|\<close> that combines operations belong to the module
  \<^verbatim>\<open>pgtrigger.core\<close>, which is not among the sources. The specification gives the timing as
  an enumeration of BEFORE, AFTER and INSTEAD OF, and the operation as a composite over INSERT,
  UPDATE and DELETE with an optional UPDATE OF restricted to columns.
\<close>

datatype timing = Before | After | Instead_Of

datatype operation =
    Insert
  | Update
  | Delete
  | UpdateOf "string list"
  | Operations operation operation

text \<open>
  Modelled from the spec: the attributes of \<^verbatim>\<open>core.Trigger\<close> (name, when, operation,
  condition). An attribute a class does not set is \<^verbatim>\<open>None\<close>. \<open>class_name\<close> is
  \<^verbatim>\<open>self.__class__.__name__\<close>. The records of the four policies extend this one, the way the
  classes derive from \<^verbatim>\<open>core.Trigger\<close>; a value of such a record is \<^verbatim>\<open>self\<close>, holding the
  class attributes until \<^verbatim>\<open>__init__\<close> assigns.
\<close>

record trigger =
  class_name :: string
  name :: "string option"
  "when" :: "timing option"
  operation :: "operation option"
  condition :: "string option"

text \<open>
  Modelled from the spec: \<^verbatim>\<open>core.Trigger.__init__\<close> is not among the sources. A keyword that
  is given replaces the class attribute, and an operation must be there after that
  (the specification's invariant that the operation is non-empty).
\<close>

definition Trigger_init ::
  "'a trigger_scheme \<Rightarrow> string option \<Rightarrow> operation option \<Rightarrow> string option
     \<Rightarrow> error + 'a trigger_scheme" where
  \<open>Trigger_init self nm op cond =
     (let self1 = self\<lparr>name := py_or nm (name self),
                       operation := (case op of None \<Rightarrow> operation self | Some _ \<Rightarrow> op),
                       condition := py_or cond (condition self)\<rparr>
      in if operation self1 = None then Inl (ValueError ''Invalid "operation" attribute'')
         else Inr self1)\<close>

section \<open>What a rendered body does when the engine runs it\<close>

text \<open>
  The bodies are PL/pgSQL text. A run of a body ends with an exception raised by the body,
  with its format string and arguments, with \<^verbatim>\<open>RETURN NEW\<close>, with \<^verbatim>\<open>RETURN NULL\<close>, or with the
  engine's own error for a malformed array literal. \<open>Outside_model\<close> stands for a run about
  which this model says nothing.
\<close>

datatype outcome =
    Raise string "string list"
  | Return_NEW
  | Return_NULL
  | Malformed_array_literal
  | Outside_model

text \<open>
  Modelled from the spec: for a BEFORE row trigger the engine carries the operation out only
  when the body returns a row; \<^verbatim>\<open>RETURN NULL\<close> suppresses the operation and an exception
  or an error aborts the statement. Nothing is said of a run outside the model.
\<close>

fun operation_proceeds :: "outcome \<Rightarrow> bool" where
  "operation_proceeds (Raise fmt args) = False"
| "operation_proceeds Return_NEW = True"
| "operation_proceeds Return_NULL = False"
| "operation_proceeds Malformed_array_literal = False"

section \<open>Protect\<close>

text \<open>
  \<^verbatim>\<open>Protect\<close> sets the class attribute \<^verbatim>\<open>when = core.Before\<close> and has no \<^verbatim>\<open>__init__\<close> of its
  own.
\<close>

definition Protect :: trigger where
  "Protect = \<lparr>class_name = ''Protect'', name = None, when = Some Before,
              operation = None, condition = None\<rparr>"

text \<open>
  \<^verbatim>\<open>str(self.operation)\<close>: how an operation prints is defined in \<^verbatim>\<open>pgtrigger.core\<close>, so the
  printer is the parameter \<open>op_str\<close>; \<^verbatim>\<open>str(None)\<close> is Python's.
\<close>

definition str_operation :: "(operation \<Rightarrow> string) \<Rightarrow> operation option \<Rightarrow> string" where
  "str_operation op_str op = (case op of None \<Rightarrow> ''None'' | Some x \<Rightarrow> op_str x)"

definition Protect_message :: "(operation \<Rightarrow> string) \<Rightarrow> 'a trigger_scheme \<Rightarrow> string" where
  "Protect_message op_str self =
     ''pgtrigger: Cannot '' @ lower (str_operation op_str (operation self)) @ '' rows from % table''"

definition Protect_get_func :: "(operation \<Rightarrow> string) \<Rightarrow> 'a trigger_scheme \<Rightarrow> model \<Rightarrow> string" where
  "Protect_get_func op_str self m =
     ''\<newline>            RAISE EXCEPTION\<newline>                '' @
     [CHR 0x27] @ Protect_message op_str self @ [CHR 0x27] @
     '',\<newline>                TG_TABLE_NAME;\<newline>        ''"

text \<open>
  Running that body on a table named \<open>tbl\<close>: its only statement is the \<^verbatim>\<open>RAISE EXCEPTION\<close>,
  whose one argument is \<^verbatim>\<open>TG_TABLE_NAME\<close>. Neither row is read.
\<close>

definition Protect_body_exec :: "(operation \<Rightarrow> string) \<Rightarrow> 'a trigger_scheme \<Rightarrow> string \<Rightarrow> outcome" where
  "Protect_body_exec op_str self tbl = Raise (Protect_message op_str self) [tbl]"

section \<open>FSM\<close>

text \<open>
  The instance attributes of an \<^verbatim>\<open>FSM\<close>, and the class itself: \<^verbatim>\<open>when = core.Before\<close>,
  \<^verbatim>\<open>operation = core.Update\<close>, \<^verbatim>\<open>field = None\<close>, \<^verbatim>\<open>transitions = None\<close>. A subclass that
  sets \<^verbatim>\<open>field\<close> or \<^verbatim>\<open>transitions\<close> as class attributes is another value of the record.
\<close>

record fsm = trigger +
  fsm_field :: "string option"
  fsm_transitions :: "(string \<times> string) list option"

definition FSM :: fsm where
  "FSM = \<lparr>class_name = ''FSM'', name = None, when = Some Before,
          operation = Some Update, condition = None,
          fsm_field = None, fsm_transitions = None\<rparr>"

text \<open>
  \<^verbatim>\<open>FSM.__init__(self, *, name, condition, field, transitions)\<close>. The two attributes are
  assigned first, then checked, then the base class is initialised with the name and the
  condition.
\<close>

definition FSM_init ::
  "fsm \<Rightarrow> string option \<Rightarrow> string option \<Rightarrow> string option
     \<Rightarrow> (string \<times> string) list option \<Rightarrow> error + fsm" where
  \<open>FSM_init self nm cond fld trs =
     (let self1 = self\<lparr>fsm_field := py_or fld (fsm_field self)\<rparr>;
          self2 = self1\<lparr>fsm_transitions := py_or trs (fsm_transitions self1)\<rparr>
      in if \<not> truthy (fsm_field self2) then Inl (ValueError ''Must provide "field" for FSM'')
         else if \<not> truthy (fsm_transitions self2)
           then Inl (ValueError ''Must provide "transitions" for FSM'')
         else Trigger_init self2 nm None cond)\<close>

definition FSM_get_declare :: "fsm \<Rightarrow> model \<Rightarrow> (string \<times> string) list" where
  "FSM_get_declare self m = [(''_is_valid_transition'', ''BOOLEAN'')]"

text \<open>
  \<^verbatim>\<open>'{' + ','.join([f'{old}:{new}' for old, new in self.transitions]) + '}'\<close>
\<close>

definition transition_uri :: "string \<times> string \<Rightarrow> string" where
  "transition_uri t = (case t of (old, new) \<Rightarrow> old @ '':'' @ new)"

definition transition_uris :: "(string \<times> string) list \<Rightarrow> string" where
  "transition_uris trs = ''{'' @ join '','' (map transition_uri trs) @ ''}''"

text \<open>\<^verbatim>\<open>f'{x}'\<close> for an attribute that may be \<^verbatim>\<open>None\<close>.\<close>

definition py_format :: "string option \<Rightarrow> string" where
  "py_format x = (case x of None \<Rightarrow> ''None'' | Some s \<Rightarrow> s)"

text \<open>
  The format string of the exception, and the body that \<^verbatim>\<open>FSM.get_func\<close> returns, given the
  quoted column \<open>qcol\<close>, the field name and the rendered array literal.
\<close>

definition FSM_message :: "string \<Rightarrow> string" where
  \<open>FSM_message fld =
     ''pgtrigger: Invalid transition of field "'' @ fld @ ''" from "%" to "%" on table %''\<close>

definition FSM_body :: "string \<Rightarrow> string \<Rightarrow> string \<Rightarrow> string" where
  \<open>FSM_body qcol fld uris =
     ''\<newline>            SELECT CONCAT(OLD.'' @ qcol @ '', ':', NEW.'' @ qcol @ '') = ANY('' @
     [CHR 0x27] @ uris @ [CHR 0x27] @ ''::text[])\<newline>'' @
     ''                INTO _is_valid_transition;\<newline>'' @
     ''\<newline>'' @
     ''            IF (_is_valid_transition IS FALSE AND OLD.'' @ qcol @
     '' IS DISTINCT FROM NEW.'' @ qcol @ '') THEN\<newline>'' @
     ''                RAISE EXCEPTION\<newline>'' @
     ''                    '' @ [CHR 0x27] @ FSM_message fld @ [CHR 0x27] @ '',\<newline>'' @
     ''                    OLD.'' @ qcol @ '',\<newline>'' @
     ''                    NEW.'' @ qcol @ '',\<newline>'' @
     ''                    TG_TABLE_NAME;\<newline>'' @
     ''            ELSE\<newline>'' @
     ''                RETURN NEW;\<newline>'' @
     ''            END IF;\<newline>'' @
     ''        ''\<close>

text \<open>
  \<^verbatim>\<open>FSM.get_func(self, model)\<close>. \<open>quote\<close> is \<^verbatim>\<open>utils.quote\<close>, which is not among the sources.
  The column is looked up first; iterating over \<^verbatim>\<open>None\<close> transitions is a \<^verbatim>\<open>TypeError\<close>.
\<close>

definition FSM_get_func :: "(string \<Rightarrow> string) \<Rightarrow> fsm \<Rightarrow> model \<Rightarrow> error + string" where
  "FSM_get_func quote self m =
     (case get_field_column m (fsm_field self) of
        Inl e \<Rightarrow> Inl e
      | Inr col \<Rightarrow>
          (case fsm_transitions self of
             None \<Rightarrow> Inl (TypeError (CHR 0x27 # ''NoneType'' @ CHR 0x27 # '' object is not iterable''))
           | Some trs \<Rightarrow>
               Inr (FSM_body (quote col) (py_format (fsm_field self)) (transition_uris trs))))"

text \<open>
  How the engine reads the constant \<^verbatim>\<open>'{...}'::text[]\<close>. Blanks are the six characters the
  array input routine skips. The text must open with a brace. An element is either a run of
  characters up to the next comma or closing brace, in which a backslash makes the next
  character an ordinary one, a double quote or an opening brace is an error, and the blanks
  at either end are dropped; or a string in double quotes, after which only blanks may come
  before the comma or the brace. An element without quotes and backslashes that spells
  \<^verbatim>\<open>NULL\<close> in any letter case is a null. An empty element is an error, \<^verbatim>\<open>{}\<close> is the empty
  array, and only blanks may follow the closing brace. A literal that opens a second level
  of braces or begins with explicit bounds is an array of other dimensions, which this
  model does not read.
\<close>

definition array_isspace :: "char \<Rightarrow> bool" where
  "array_isspace c = (c \<in> set [CHR '' '', CHR 0x09, CHR 0x0A, CHR 0x0D, CHR 0x0B, CHR 0x0C])"

datatype array_reading =
    Elements "string option list"
  | Malformed_literal
  | Other_dimensions

datatype array_parse_state =
    Item_start bool
  | Elem_started
  | Elem_escape
  | Quoted_started
  | Quoted_escape
  | Quoted_completed
  | Level_completed

text \<open>
  The element read so far is kept in reverse, each character with the mark of a character
  that a backslash or the quotes protect. \<open>Item_start True\<close> is the state after the opening
  brace, \<open>Item_start False\<close> the state after a comma.
\<close>

definition bare_element :: "(char \<times> bool) list \<Rightarrow> string option" where
  "bare_element cur =
     (let item = rev (map fst (dropWhile (\<lambda>(c, esc). \<not> esc \<and> array_isspace c) cur))
      in if \<not> list_ex snd cur \<and> lower item = ''null'' then None else Some item)"

definition quoted_element :: "(char \<times> bool) list \<Rightarrow> string option" where
  "quoted_element cur = Some (rev (map fst cur))"

fun scan_array ::
  "array_parse_state \<Rightarrow> (char \<times> bool) list \<Rightarrow> string option list \<Rightarrow> string \<Rightarrow> array_reading" where
  "scan_array st cur acc [] =
     (if st = Level_completed then Elements (rev acc) else Malformed_literal)"
| "scan_array (Item_start first) cur acc (c # cs) =
     (if array_isspace c then scan_array (Item_start first) cur acc cs
      else if c = CHR ''}''
        then (if first then scan_array Level_completed [] acc cs else Malformed_literal)
      else if c = CHR '','' then Malformed_literal
      else if c = CHR ''{'' then (if first then Other_dimensions else Malformed_literal)
      else if c = CHR 0x22 then scan_array Quoted_started [] acc cs
      else if c = CHR 0x5C then scan_array Elem_escape [] acc cs
      else scan_array Elem_started [(c, False)] acc cs)"
| "scan_array Elem_started cur acc (c # cs) =
     (if c = CHR 0x5C then scan_array Elem_escape cur acc cs
      else if c = CHR 0x22 \<or> c = CHR ''{'' then Malformed_literal
      else if c = CHR '','' then scan_array (Item_start False) [] (bare_element cur # acc) cs
      else if c = CHR ''}'' then scan_array Level_completed [] (bare_element cur # acc) cs
      else scan_array Elem_started ((c, False) # cur) acc cs)"
| "scan_array Elem_escape cur acc (c # cs) = scan_array Elem_started ((c, True) # cur) acc cs"
| "scan_array Quoted_started cur acc (c # cs) =
     (if c = CHR 0x5C then scan_array Quoted_escape cur acc cs
      else if c = CHR 0x22 then scan_array Quoted_completed cur acc cs
      else scan_array Quoted_started ((c, True) # cur) acc cs)"
| "scan_array Quoted_escape cur acc (c # cs) = scan_array Quoted_started ((c, True) # cur) acc cs"
| "scan_array Quoted_completed cur acc (c # cs) =
     (if array_isspace c then scan_array Quoted_completed cur acc cs
      else if c = CHR '','' then scan_array (Item_start False) [] (quoted_element cur # acc) cs
      else if c = CHR ''}'' then scan_array Level_completed [] (quoted_element cur # acc) cs
      else Malformed_literal)"
| "scan_array Level_completed cur acc (c # cs) =
     (if array_isspace c then scan_array Level_completed cur acc cs else Malformed_literal)"

definition text_array_in :: "string \<Rightarrow> array_reading" where
  "text_array_in lit =
     (case dropWhile array_isspace lit of
        [] \<Rightarrow> Malformed_literal
      | c # cs \<Rightarrow>
          if c = CHR ''{'' then scan_array (Item_start True) [] [] cs
          else if c = CHR ''['' then Other_dimensions
          else Malformed_literal)"

text \<open>
  \<^verbatim>\<open>text = ANY(array)\<close> for a text that is not null: true when an element equals it,
  otherwise unknown when an element is null, otherwise false.
\<close>

definition eq_any :: "string \<Rightarrow> string option list \<Rightarrow> bool option" where
  "eq_any x elems =
     (if Some x \<in> set elems then Some True
      else if None \<in> set elems then None
      else Some False)"

text \<open>
  Running the body on a table named \<open>tbl\<close>, with \<open>old\<close> and \<open>new\<close> the values of the column in
  the rows \<^verbatim>\<open>OLD\<close> and \<^verbatim>\<open>NEW\<close> (the class supports non-null character fields only), and
  \<open>uris\<close> the text that \<^verbatim>\<open>get_func\<close> put between the single quotes. The \<^verbatim>\<open>SELECT\<close> comes first:
  a malformed array literal is an error of the engine, whatever the two values are. Then
  \<^verbatim>\<open>_is_valid_transition\<close> is whether \<^verbatim>\<open>CONCAT(OLD.col, ':', NEW.col)\<close> equals an element of the
  array; the exception is raised when that is false and \<^verbatim>\<open>OLD.col IS DISTINCT FROM NEW.col\<close>,
  with the two values and \<^verbatim>\<open>TG_TABLE_NAME\<close> as arguments; otherwise \<^verbatim>\<open>RETURN NEW\<close>. A single
  quote in \<open>uris\<close> ends the string constant before the template's closing quote; what the
  engine then makes of the statement is outside this model, as is an array of other
  dimensions.
\<close>

definition FSM_body_exec :: "string \<Rightarrow> string \<Rightarrow> string \<Rightarrow> string \<Rightarrow> string \<Rightarrow> outcome" where
  "FSM_body_exec fld uris tbl old new =
     (if CHR 0x27 \<in> set uris then Outside_model
      else
        (case text_array_in uris of
           Malformed_literal \<Rightarrow> Malformed_array_literal
         | Other_dimensions \<Rightarrow> Outside_model
         | Elements elems \<Rightarrow>
             (let is_valid_transition = eq_any (old @ '':'' @ new) elems
              in if is_valid_transition = Some False \<and> old \<noteq> new
                 then Raise (FSM_message fld) [old, new, tbl]
                 else Return_NEW)))"

section \<open>SoftDelete\<close>

text \<open>
  The class: \<^verbatim>\<open>when = core.Before\<close>, \<^verbatim>\<open>operation = core.Delete\<close>, \<^verbatim>\<open>field = None\<close>,
  \<^verbatim>\<open>value = False\<close>.
\<close>

record soft_delete = trigger +
  sd_field :: "string option"
  sd_value :: pyval

definition SoftDelete :: soft_delete where
  "SoftDelete = \<lparr>class_name = ''SoftDelete'', name = None, when = Some Before,
                 operation = Some Delete, condition = None,
                 sd_field = None, sd_value = PyBool False\<rparr>"

text \<open>
  \<^verbatim>\<open>SoftDelete.__init__(self, *, name, condition, field, value=_unset)\<close>. The keyword
  \<open>val\<close> is \<open>None\<close> when the caller leaves it out, so that it is the sentinel \<^verbatim>\<open>_unset\<close>,
  and \<open>Some v\<close> when the caller passes \<open>v\<close>, whatever \<open>v\<close> is.
\<close>

definition SoftDelete_init ::
  "soft_delete \<Rightarrow> string option \<Rightarrow> string option \<Rightarrow> string option
     \<Rightarrow> pyval option \<Rightarrow> error + soft_delete" where
  \<open>SoftDelete_init self nm cond fld val =
     (let self1 = self\<lparr>sd_field := py_or fld (sd_field self)\<rparr>;
          self2 = self1\<lparr>sd_value := (case val of Some v \<Rightarrow> v | None \<Rightarrow> sd_value self1)\<rparr>
      in if \<not> truthy (sd_field self2)
         then Inl (ValueError ''Must provide "field" for soft delete'')
         else Trigger_init self2 nm None cond)\<close>

text \<open>\<^verbatim>\<open>_render_value()\<close>, the local function of \<^verbatim>\<open>SoftDelete.get_func\<close>.\<close>

fun render_value :: "pyval \<Rightarrow> string" where
  "render_value PyNone = ''NULL''"
| "render_value (PyStr s) = [CHR 0x27] @ s @ [CHR 0x27]"
| "render_value (PyBool b) = py_str (PyBool b)"
| "render_value (PyInt i) = py_str (PyInt i)"
| "render_value (PyOther printed) = py_str (PyOther printed)"

text \<open>
  The body, given the quoted table name, the column of the soft-delete field (which the
  source does not quote), the rendered value and the quoted primary key column.
\<close>

definition SoftDelete_body :: "string \<Rightarrow> string \<Rightarrow> string \<Rightarrow> string \<Rightarrow> string" where
  "SoftDelete_body qtable soft_field rendered qpk =
     ''\<newline>            UPDATE '' @ qtable @ ''\<newline>'' @
     ''            SET '' @ soft_field @ '' = '' @ rendered @ ''\<newline>'' @
     ''            WHERE '' @ qpk @ '' = OLD.'' @ qpk @ '';\<newline>'' @
     ''            RETURN NULL;\<newline>'' @
     ''        ''"

definition SoftDelete_get_func ::
  "(string \<Rightarrow> string) \<Rightarrow> soft_delete \<Rightarrow> model \<Rightarrow> error + string" where
  "SoftDelete_get_func quote self m =
     (case get_field_column m (sd_field self) of
        Inl e \<Rightarrow> Inl e
      | Inr soft_field \<Rightarrow>
          Inr (SoftDelete_body (quote (db_table m)) soft_field
                 (render_value (sd_value self)) (quote (pk_column m))))"

section \<open>UpdateSearchVector\<close>

text \<open>
  The class: \<^verbatim>\<open>when = core.Before\<close>, \<^verbatim>\<open>vector_field = None\<close>, \<^verbatim>\<open>document_fields = None\<close>,
  \<^verbatim>\<open>config_name = 'pg_catalog.english'\<close>.
\<close>

record update_search_vector = trigger +
  vector_field :: "string option"
  document_fields :: "string list option"
  config_name :: "string option"

definition UpdateSearchVector :: update_search_vector where
  "UpdateSearchVector =
     \<lparr>class_name = ''UpdateSearchVector'', name = None, when = Some Before,
      operation = None, condition = None,
      vector_field = None, document_fields = None,
      config_name = Some ''pg_catalog.english''\<rparr>"

text \<open>
  \<^verbatim>\<open>UpdateSearchVector.__init__(self, *, name, vector_field, document_fields, config_name)\<close>.
  The operation handed to the base class is built from the argument \<^verbatim>\<open>document_fields\<close>, not
  from the attribute: \<^verbatim>\<open>core.UpdateOf(*document_fields)\<close>. Unpacking \<^verbatim>\<open>None\<close> is a
  \<^verbatim>\<open>TypeError\<close>. What \<^verbatim>\<open>core.UpdateOf\<close> does with no column at all is not in the sources; the
  columns are passed on as they are.
\<close>

definition UpdateSearchVector_init ::
  "update_search_vector \<Rightarrow> string option \<Rightarrow> string option \<Rightarrow> string list option
     \<Rightarrow> string option \<Rightarrow> error + update_search_vector" where
  \<open>UpdateSearchVector_init self nm vf dfs cn =
     (let self1 = self\<lparr>vector_field := py_or vf (vector_field self)\<rparr>;
          self2 = self1\<lparr>document_fields := py_or dfs (document_fields self1)\<rparr>;
          self3 = self2\<lparr>config_name := py_or cn (config_name self2)\<rparr>
      in if \<not> truthy (vector_field self3)
         then Inl (ValueError ''Must provide "vector_field" to update search vector'')
         else if \<not> truthy (document_fields self3)
         then Inl (ValueError ''Must provide "document_fields" to update search vector'')
         else if \<not> truthy (config_name self3)
         then Inl (ValueError ''Must provide "config_name" to update search vector'')
         else (case dfs of
                 None \<Rightarrow> Inl (TypeError ''argument after * must be an iterable, not NoneType'')
               | Some cols \<Rightarrow>
                   Trigger_init self3 nm (Some (Operations Insert (UpdateOf cols))) None))\<close>

text \<open>\<^verbatim>\<open>UpdateSearchVector.ignore(self, model)\<close>: the only statement is the \<^verbatim>\<open>raise\<close>.\<close>

definition UpdateSearchVector_ignore :: "update_search_vector \<Rightarrow> model \<Rightarrow> error + unit" where
  "UpdateSearchVector_ignore self m =
     Inl (RuntimeError (''Cannot ignore '' @ class_name self @ '' triggers''))"

definition UpdateSearchVector_render_func :: "update_search_vector \<Rightarrow> model \<Rightarrow> string" where
  "UpdateSearchVector_render_func self m = []"

text \<open>
  \<^verbatim>\<open>[model._meta.get_field(field).column for field in self.document_fields]\<close>: the first
  unknown field raises.
\<close>

fun get_field_columns :: "model \<Rightarrow> string list \<Rightarrow> error + string list" where
  "get_field_columns m [] = Inr []"
| "get_field_columns m (f # fs) =
     (case get_field_column m (Some f) of
        Inl e \<Rightarrow> Inl e
      | Inr col \<Rightarrow>
          (case get_field_columns m fs of
             Inl e \<Rightarrow> Inl e
           | Inr cols \<Rightarrow> Inr (col # cols)))"

text \<open>The function reference that \<^verbatim>\<open>render_trigger\<close> builds from the three quoted parts.\<close>

definition tsvector_update_trigger :: "string \<Rightarrow> string \<Rightarrow> string \<Rightarrow> string" where
  "tsvector_update_trigger qvector qconfig rendered_document_cols =
     ''tsvector_update_trigger('' @ qvector @ '','' @
     '' '' @ qconfig @ '', '' @ rendered_document_cols @ '')''"

text \<open>
  \<^verbatim>\<open>UpdateSearchVector.render_trigger(self, model, function=None)\<close>. The argument \<open>function\<close> is
  overwritten before it is read. \<open>super_render_trigger\<close> is \<^verbatim>\<open>super().render_trigger\<close>. A
  constructed trigger has a configuration name; what \<^verbatim>\<open>utils.quote\<close> does with \<^verbatim>\<open>None\<close> is
  not in the sources, and the model makes it an error.
\<close>

definition UpdateSearchVector_render_trigger ::
  "(string \<Rightarrow> string)
     \<Rightarrow> (update_search_vector \<Rightarrow> model \<Rightarrow> string option \<Rightarrow> error + string)
     \<Rightarrow> update_search_vector \<Rightarrow> model \<Rightarrow> string option \<Rightarrow> error + string" where
  "UpdateSearchVector_render_trigger quote super_render_trigger self m function =
     (case document_fields self of
        None \<Rightarrow> Inl (TypeError (CHR 0x27 # ''NoneType'' @ CHR 0x27 # '' object is not iterable''))
      | Some flds \<Rightarrow>
          (case get_field_columns m flds of
             Inl e \<Rightarrow> Inl e
           | Inr document_cols \<Rightarrow>
               (let rendered_document_cols = join '', '' (map quote document_cols) in
                case get_field_column m (vector_field self) of
                  Inl e \<Rightarrow> Inl e
                | Inr vector_col \<Rightarrow>
                    (case config_name self of
                       None \<Rightarrow> Inl (TypeError ''utils.quote(None)'')
                     | Some cfg \<Rightarrow>
                         super_render_trigger self m
                           (Some (tsvector_update_trigger (quote vector_col) (quote cfg)
                                    rendered_document_cols))))))"

section \<open>The trigger statement and the events that fire it\<close>

text \<open>
  Modelled from the spec: \<^verbatim>\<open>core.Trigger.render_trigger\<close> is not among the sources. The
  specification gives the statement as
  \<^verbatim>\<open>CREATE TRIGGER <name> <when> <operation>[ OF <cols>] ON <table> FOR EACH ROW [WHEN (<condition>)] EXECUTE FUNCTION <function>(<args>)\<close>,
  and says that a function override, when supplied, is used verbatim instead of a reference to
  the generated function. \<open>generated\<close> is the name of the generated function, whose derivation
  is not in the sources either.
\<close>

fun timing_sql :: "timing \<Rightarrow> string" where
  "timing_sql Before = ''BEFORE''"
| "timing_sql After = ''AFTER''"
| "timing_sql Instead_Of = ''INSTEAD OF''"

fun operation_sql :: "operation \<Rightarrow> string" where
  "operation_sql Insert = ''INSERT''"
| "operation_sql Update = ''UPDATE''"
| "operation_sql Delete = ''DELETE''"
| "operation_sql (UpdateOf cols) = ''UPDATE OF '' @ join '', '' cols"
| "operation_sql (Operations a b) = operation_sql a @ '' OR '' @ operation_sql b"

definition Trigger_statement_head :: "(string \<Rightarrow> string) \<Rightarrow> 'a trigger_scheme \<Rightarrow> model \<Rightarrow> string" where
  "Trigger_statement_head quote self m =
     ''CREATE TRIGGER '' @ py_format (name self) @
     '' '' @ py_format (map_option timing_sql (when self)) @
     '' '' @ py_format (map_option operation_sql (operation self)) @
     '' ON '' @ quote (db_table m) @
     '' FOR EACH ROW '' @
     (case condition self of None \<Rightarrow> [] | Some c \<Rightarrow> ''WHEN ('' @ c @ '') '') @
     ''EXECUTE FUNCTION ''"

definition Trigger_render_trigger ::
  "(string \<Rightarrow> string) \<Rightarrow> string \<Rightarrow> 'a trigger_scheme \<Rightarrow> model \<Rightarrow> string option \<Rightarrow> error + string" where
  "Trigger_render_trigger quote generated self m function =
     Inr (Trigger_statement_head quote self m @
          (case function of None \<Rightarrow> generated @ ''()'' | Some f \<Rightarrow> f))"

text \<open>
  Modelled from the spec: \<^verbatim>\<open>core.Trigger.install\<close> is not among the sources. The
  specification says that it emits \<^verbatim>\<open>CREATE OR REPLACE FUNCTION\<close>, skipped entirely if
  \<^verbatim>\<open>render_func\<close> is empty, followed by \<^verbatim>\<open>DROP TRIGGER IF EXISTS\<close> and \<^verbatim>\<open>CREATE TRIGGER\<close>.
\<close>

datatype ddl =
    Create_or_replace_function string
  | Drop_trigger_if_exists
  | Create_trigger string

definition Trigger_install :: "string \<Rightarrow> string \<Rightarrow> ddl list" where
  "Trigger_install rendered_func rendered_trigger =
     (if rendered_func = [] then [] else [Create_or_replace_function rendered_func]) @
     [Drop_trigger_if_exists, Create_trigger rendered_trigger]"

text \<open>
  Modelled from the spec: which statements an operation covers. A trigger for
  \<^verbatim>\<open>UPDATE OF\<close> columns is fired by an update that names one of them, and by no other
  update; a combination covers what either side covers. An update is given by the columns
  it assigns.
\<close>

datatype event = Insert_event | Update_event "string list" | Delete_event

fun fires :: "operation \<Rightarrow> event \<Rightarrow> bool" where
  "fires Insert ev = (ev = Insert_event)"
| "fires Update ev = (case ev of Update_event assigned \<Rightarrow> True | _ \<Rightarrow> False)"
| "fires Delete ev = (ev = Delete_event)"
| "fires (UpdateOf cols) ev =
     (case ev of Update_event assigned \<Rightarrow> list_ex (\<lambda>c. c \<in> set assigned) cols | _ \<Rightarrow> False)"
| "fires (Operations a b) ev = (fires a ev \<or> fires b ev)"

section \<open>Example models and triggers\<close>

text \<open>
  \<^verbatim>\<open>utils.quote\<close> is not among the sources, and every function of this theory takes the
  quoting as a parameter. The examples instantiate it with a function that wraps an
  identifier in double quotes.
\<close>

definition quote_ident :: "string \<Rightarrow> string" where
  \<open>quote_ident s = ''"'' @ s @ ''"''\<close>

text \<open>
  A model with the fields of the test migration \<^verbatim>\<open>0008_searchmodel\<close>, whose vector and
  document fields are stored in columns of other names, and a model with a status column
  for the state machine of the specification's example.
\<close>

definition search_model :: model where
  "search_model =
     \<lparr>db_table = ''tests_searchmodel'', pk_column = ''id'',
      field_column = map_of [(''id'', ''id''), (''body_vector'', ''body_tsv''),
        (''title_body_vector'', ''title_body_tsv''), (''title'', ''headline''),
        (''body'', ''body_text'')]\<rparr>"

definition post_model :: model where
  "post_model =
     \<lparr>db_table = ''post'', pk_column = ''id'',
      field_column = map_of [(''id'', ''id''), (''status'', ''status''),
        (''is_active'', ''is_active'')]\<rparr>"

definition post_transitions :: "(string \<times> string) list" where
  "post_transitions = [(''draft'', ''published''), (''published'', ''archived'')]"

section \<open>Auxiliary facts\<close>

subsection \<open>Truthiness\<close>

lemma truthy_simps [simp]:
  "truthy None = False" "truthy (Some v) = (v \<noteq> [])"
  by (simp_all add: truthy_def)

subsection \<open>Looking up the columns of a list of fields\<close>

lemma get_field_columns_Inr_iff:
  "get_field_columns m fs = Inr cols \<longleftrightarrow> map (field_column m) fs = map Some cols"
proof (induction fs arbitrary: cols)
  case Nil
  then show ?case by auto
next
  case (Cons f fs)
  show ?case
  proof (cases "field_column m f")
    case None
    then show ?thesis by (auto simp: get_field_column_def)
  next
    case (Some col)
    show ?thesis
    proof (cases "get_field_columns m fs")
      case (Inl e)
      with Some Cons.IH show ?thesis
        by (cases cols) (auto simp: get_field_column_def)
    next
      case (Inr rest)
      with Some Cons.IH [of rest] Cons.IH show ?thesis
        by (cases cols) (auto simp: get_field_column_def)
    qed
  qed
qed

section \<open>Protect\<close>

text \<open>
  C4. Whatever the operation of a \<^verbatim>\<open>Protect\<close> trigger is, the class attribute for the timing is
  BEFORE, the rendered body is the one \<^verbatim>\<open>RAISE EXCEPTION\<close> statement, whose message holds the
  operation in lower case and whose argument is the table name, and a run of the body raises
  that exception without reading a row, so the operation does not proceed.
\<close>

theorem Protect_body_single_raise:
  \<open>when Protect = Some Before \<and>
   Protect_get_func op_str self m =
     ''\<newline>            RAISE EXCEPTION\<newline>                '' @
     [CHR 0x27] @ ''pgtrigger: Cannot '' @ lower (str_operation op_str (operation self)) @
     '' rows from % table'' @ [CHR 0x27] @
     '',\<newline>                TG_TABLE_NAME;\<newline>        '' \<and>
   Protect_body_exec op_str self tbl =
     Raise (''pgtrigger: Cannot '' @ lower (str_operation op_str (operation self)) @
            '' rows from % table'') [tbl] \<and>
   \<not> operation_proceeds (Protect_body_exec op_str self tbl)\<close>
  by (simp add: Protect_def Protect_get_func_def Protect_body_exec_def Protect_message_def)

section \<open>FSM: an unchanged value, and construction\<close>

text \<open>
  C2. An update that leaves the guarded column unchanged does not always get the new row
  back. The trigger that declares the single transition from \<^verbatim>\<open>a{\<close> to \<^verbatim>\<open>b\<close> is constructed,
  and \<^verbatim>\<open>get_func\<close> renders the array constant \<^verbatim>\<open>'{a{:b}'\<close>, whose second brace makes the literal
  malformed; the \<^verbatim>\<open>SELECT\<close> of the body fails on it before the guard is looked at, so the
  update from \<^verbatim>\<open>x\<close> to \<^verbatim>\<open>x\<close> does not proceed.
\<close>

theorem FSM_unchanged_value_malformed_literal:
  \<open>FSM_init FSM (Some ''post_fsm'') None (Some ''status'') (Some [(''a{'', ''b'')]) =
     Inr (FSM\<lparr>name := Some ''post_fsm'', fsm_field := Some ''status'',
               fsm_transitions := Some [(''a{'', ''b'')]\<rparr>) \<and>
   FSM_get_func quote_ident
     (FSM\<lparr>name := Some ''post_fsm'', fsm_field := Some ''status'',
           fsm_transitions := Some [(''a{'', ''b'')]\<rparr>) post_model =
     Inr (''\<newline>            SELECT CONCAT(OLD."status", ':', NEW."status") = ANY('{a{:b}'::text[])\<newline>'' @
          ''                INTO _is_valid_transition;\<newline>'' @
          ''\<newline>'' @
          ''            IF (_is_valid_transition IS FALSE AND OLD."status" IS DISTINCT FROM NEW."status") THEN\<newline>'' @
          ''                RAISE EXCEPTION\<newline>'' @
          ''                    'pgtrigger: Invalid transition of field "status" from "%" to "%" on table %',\<newline>'' @
          ''                    OLD."status",\<newline>'' @
          ''                    NEW."status",\<newline>'' @
          ''                    TG_TABLE_NAME;\<newline>'' @
          ''            ELSE\<newline>'' @
          ''                RETURN NEW;\<newline>'' @
          ''            END IF;\<newline>'' @
          ''        '') \<and>
   text_array_in ''{a{:b}'' = Malformed_literal \<and>
   FSM_body_exec ''status'' ''{a{:b}'' ''post'' ''x'' ''x'' = Malformed_array_literal \<and>
   \<not> operation_proceeds (FSM_body_exec ''status'' ''{a{:b}'' ''post'' ''x'' ''x'')\<close>
  by (simp add: FSM_init_def Trigger_init_def py_or_def FSM_def Let_def
      FSM_get_func_def get_field_column_def post_model_def py_format_def quote_ident_def
      FSM_body_def FSM_message_def transition_uris_def transition_uri_def
      FSM_body_exec_def text_array_in_def array_isspace_def)

text \<open>
  What does hold for an unchanged value: a run of the body never raises the exception of the
  transition guard, whatever the array literal is.
\<close>

lemma FSM_unchanged_value_never_raises:
  "FSM_body_exec fld uris tbl v v \<noteq> Raise fmt args"
  by (simp add: FSM_body_exec_def split: array_reading.splits)

text \<open>
  C5. Constructing an \<^verbatim>\<open>FSM\<close> fails with a \<^verbatim>\<open>ValueError\<close> in \<^verbatim>\<open>__init__\<close> when neither the
  argument nor the class gives a field, and when neither gives a non-empty list of
  transitions; a construction that succeeds yields a trigger with a non-empty field and a
  non-empty list of transitions.
\<close>

theorem FSM_init_requires_field_and_transitions:
  \<open>(\<not> truthy (py_or fld (fsm_field self)) \<longrightarrow>
      FSM_init self nm cond fld trs = Inl (ValueError ''Must provide "field" for FSM'')) \<and>
   (truthy (py_or fld (fsm_field self)) \<and> \<not> truthy (py_or trs (fsm_transitions self)) \<longrightarrow>
      FSM_init self nm cond fld trs = Inl (ValueError ''Must provide "transitions" for FSM'')) \<and>
   (FSM_init self nm cond fld trs = Inr t \<longrightarrow>
      (\<exists>f ts. fsm_field t = Some f \<and> f \<noteq> [] \<and> fsm_transitions t = Some ts \<and> ts \<noteq> []))\<close>
  by (auto simp add: FSM_init_def Trigger_init_def Let_def truthy_def split: if_splits option.splits)

text \<open>
  The three cases on the class \<^verbatim>\<open>FSM\<close> itself: no field, an empty list of transitions, and
  the state machine of the specification's example.
\<close>

theorem FSM_init_requires_field_and_transitions_witness:
  \<open>FSM_init FSM (Some ''post_fsm'') None None (Some post_transitions) =
     Inl (ValueError ''Must provide "field" for FSM'') \<and>
   FSM_init FSM (Some ''post_fsm'') None (Some ''status'') (Some []) =
     Inl (ValueError ''Must provide "transitions" for FSM'') \<and>
   FSM_init FSM (Some ''post_fsm'') None (Some ''status'') (Some post_transitions) =
     Inr (FSM\<lparr>name := Some ''post_fsm'', fsm_field := Some ''status'',
               fsm_transitions := Some post_transitions\<rparr>) \<and>
   (\<exists>f ts. fsm_field (FSM\<lparr>name := Some ''post_fsm'', fsm_field := Some ''status'',
               fsm_transitions := Some post_transitions\<rparr>) = Some f \<and> f \<noteq> [] \<and>
      fsm_transitions (FSM\<lparr>name := Some ''post_fsm'', fsm_field := Some ''status'',
               fsm_transitions := Some post_transitions\<rparr>) = Some ts \<and> ts \<noteq> [])\<close>
proof -
  let ?t = "FSM\<lparr>name := Some ''post_fsm'', fsm_field := Some ''status'',
               fsm_transitions := Some post_transitions\<rparr>"
  have no_field: "\<not> truthy (py_or None (fsm_field FSM))"
    by (simp add: py_or_def FSM_def)
  have no_transitions:
    "truthy (py_or (Some ''status'') (fsm_field FSM)) \<and>
     \<not> truthy (py_or (Some []) (fsm_transitions FSM))"
    by (simp add: py_or_def FSM_def)
  have built: "FSM_init FSM (Some ''post_fsm'') None (Some ''status'') (Some post_transitions) = Inr ?t"
    by (simp add: FSM_init_def Trigger_init_def py_or_def FSM_def post_transitions_def Let_def)
  note a = FSM_init_requires_field_and_transitions
    [where self = FSM and fld = None and nm = "Some ''post_fsm''" and cond = None
       and trs = "Some post_transitions"]
  note b = FSM_init_requires_field_and_transitions
    [where self = FSM and fld = "Some ''status''" and nm = "Some ''post_fsm''" and cond = None
       and trs = "Some []"]
  note c = FSM_init_requires_field_and_transitions
    [where self = FSM and fld = "Some ''status''" and nm = "Some ''post_fsm''" and cond = None
       and trs = "Some post_transitions" and t = ?t]
  from a no_field b no_transitions c built show ?thesis by blast
qed

section \<open>FSM: which transitions the rendered body lets through\<close>

text \<open>
  C1. The rendered body does not raise for every pair outside the declared set. The trigger
  that declares the single transition from \<^verbatim>\<open>a:b\<close> to \<^verbatim>\<open>c\<close> is constructed, and \<^verbatim>\<open>get_func\<close>
  renders the array constant \<^verbatim>\<open>'{a:b:c}'\<close>, whose one element is also what \<^verbatim>\<open>CONCAT\<close> makes of
  the old value \<^verbatim>\<open>a\<close> and the new value \<^verbatim>\<open>b:c\<close>: the update from \<^verbatim>\<open>a\<close> to \<^verbatim>\<open>b:c\<close>, which is not
  declared, gets the new row back and proceeds.
\<close>

theorem FSM_undeclared_transition_accepted:
  \<open>FSM_init FSM (Some ''post_fsm'') None (Some ''status'') (Some [(''a:b'', ''c'')]) =
     Inr (FSM\<lparr>name := Some ''post_fsm'', fsm_field := Some ''status'',
               fsm_transitions := Some [(''a:b'', ''c'')]\<rparr>) \<and>
   FSM_get_func quote_ident
     (FSM\<lparr>name := Some ''post_fsm'', fsm_field := Some ''status'',
           fsm_transitions := Some [(''a:b'', ''c'')]\<rparr>) post_model =
     Inr (''\<newline>            SELECT CONCAT(OLD."status", ':', NEW."status") = ANY('{a:b:c}'::text[])\<newline>'' @
          ''                INTO _is_valid_transition;\<newline>'' @
          ''\<newline>'' @
          ''            IF (_is_valid_transition IS FALSE AND OLD."status" IS DISTINCT FROM NEW."status") THEN\<newline>'' @
          ''                RAISE EXCEPTION\<newline>'' @
          ''                    'pgtrigger: Invalid transition of field "status" from "%" to "%" on table %',\<newline>'' @
          ''                    OLD."status",\<newline>'' @
          ''                    NEW."status",\<newline>'' @
          ''                    TG_TABLE_NAME;\<newline>'' @
          ''            ELSE\<newline>'' @
          ''                RETURN NEW;\<newline>'' @
          ''            END IF;\<newline>'' @
          ''        '') \<and>
   ''a'' \<noteq> ''b:c'' \<and>
   (''a'', ''b:c'') \<notin> set [(''a:b'', ''c'')] \<and>
   text_array_in ''{a:b:c}'' = Elements [Some ''a:b:c''] \<and>
   FSM_body_exec ''status'' ''{a:b:c}'' ''post'' ''a'' ''b:c'' = Return_NEW \<and>
   operation_proceeds (FSM_body_exec ''status'' ''{a:b:c}'' ''post'' ''a'' ''b:c'')\<close>
  by (simp add: FSM_init_def Trigger_init_def py_or_def FSM_def Let_def
      FSM_get_func_def get_field_column_def post_model_def py_format_def quote_ident_def
      FSM_body_def FSM_message_def transition_uris_def transition_uri_def
      FSM_body_exec_def text_array_in_def array_isspace_def bare_element_def eq_any_def
      lower_def lower_char_def)

text \<open>
  C9. The encoding of the transitions is not injective. The one-transition sets
  \<^verbatim>\<open>a:b\<close> to \<^verbatim>\<open>c\<close> and \<^verbatim>\<open>a\<close> to \<^verbatim>\<open>b:c\<close> differ and render the same body, and so do the set
  with the one transition \<^verbatim>\<open>a\<close> to \<^verbatim>\<open>b,c:d\<close> and the set with the two transitions \<^verbatim>\<open>a\<close> to
  \<^verbatim>\<open>b\<close> and \<^verbatim>\<open>c\<close> to \<^verbatim>\<open>d\<close>; in both cases a transition that one set does not declare is let
  through by its body.
\<close>

theorem transition_uris_not_injective:
  \<open>set [(''a:b'', ''c'')] \<noteq> set [(''a'', ''b:c'')] \<and>
   transition_uris [(''a:b'', ''c'')] = transition_uris [(''a'', ''b:c'')] \<and>
   FSM_get_func quote (FSM\<lparr>fsm_field := Some ''status'', fsm_transitions := Some [(''a:b'', ''c'')]\<rparr>)
       post_model =
     Inr (FSM_body (quote ''status'') ''status'' ''{a:b:c}'') \<and>
   FSM_get_func quote (FSM\<lparr>fsm_field := Some ''status'', fsm_transitions := Some [(''a'', ''b:c'')]\<rparr>)
       post_model =
     Inr (FSM_body (quote ''status'') ''status'' ''{a:b:c}'') \<and>
   (''a:b'', ''c'') \<notin> set [(''a'', ''b:c'')] \<and>
   FSM_body_exec fld (transition_uris [(''a'', ''b:c'')]) tbl ''a:b'' ''c'' = Return_NEW \<and>
   set [(''a'', ''b,c:d'')] \<noteq> set [(''a'', ''b''), (''c'', ''d'')] \<and>
   transition_uris [(''a'', ''b,c:d'')] = transition_uris [(''a'', ''b''), (''c'', ''d'')] \<and>
   FSM_get_func quote (FSM\<lparr>fsm_field := Some ''status'', fsm_transitions := Some [(''a'', ''b,c:d'')]\<rparr>)
       post_model =
     Inr (FSM_body (quote ''status'') ''status'' ''{a:b,c:d}'') \<and>
   FSM_get_func quote
       (FSM\<lparr>fsm_field := Some ''status'', fsm_transitions := Some [(''a'', ''b''), (''c'', ''d'')]\<rparr>)
       post_model =
     Inr (FSM_body (quote ''status'') ''status'' ''{a:b,c:d}'') \<and>
   (''c'', ''d'') \<notin> set [(''a'', ''b,c:d'')] \<and>
   FSM_body_exec fld (transition_uris [(''a'', ''b,c:d'')]) tbl ''c'' ''d'' = Return_NEW\<close>
  by (simp add: FSM_def FSM_get_func_def get_field_column_def post_model_def py_format_def
      transition_uris_def transition_uri_def FSM_body_exec_def text_array_in_def
      array_isspace_def bare_element_def eq_any_def lower_def lower_char_def)

section \<open>SoftDelete: the body and the literal\<close>

text \<open>
  C3. A string is not always rendered as a constant in correct quoting. The trigger that sets
  the field \<^verbatim>\<open>status\<close> to the value \<^verbatim>\<open>it's\<close> is constructed, and \<^verbatim>\<open>get_func\<close> renders
  \<^verbatim>\<open>SET status = 'it's'\<close>: the value is put between single quotes as it is, so the text from
  the opening quote to the next one is \<^verbatim>\<open>it\<close>, not the configured value, and the rest of the
  value stands outside the constant.
\<close>

theorem SoftDelete_quote_in_value_not_escaped:
  \<open>SoftDelete_init SoftDelete (Some ''soft'') None (Some ''status'') (Some (PyStr ''it's'')) =
     Inr (SoftDelete\<lparr>name := Some ''soft'', sd_field := Some ''status'',
                      sd_value := PyStr ''it's''\<rparr>) \<and>
   SoftDelete_get_func quote_ident
     (SoftDelete\<lparr>name := Some ''soft'', sd_field := Some ''status'',
                 sd_value := PyStr ''it's''\<rparr>) post_model =
     Inr (''\<newline>            UPDATE "post"\<newline>'' @
          ''            SET status = 'it's'\<newline>'' @
          ''            WHERE "id" = OLD."id";\<newline>'' @
          ''            RETURN NULL;\<newline>'' @
          ''        '') \<and>
   render_value (PyStr ''it's'') = [CHR 0x27] @ ''it's'' @ [CHR 0x27] \<and>
   takeWhile (\<lambda>c. c \<noteq> CHR 0x27) (tl (render_value (PyStr ''it's''))) = ''it'' \<and>
   takeWhile (\<lambda>c. c \<noteq> CHR 0x27) (tl (render_value (PyStr ''it's''))) \<noteq> ''it's''\<close>
  by (simp add: SoftDelete_init_def Trigger_init_def py_or_def SoftDelete_def Let_def
      SoftDelete_get_func_def get_field_column_def post_model_def quote_ident_def
      SoftDelete_body_def)

text \<open>
  What does hold of the rendering: for a field the model knows, the body is the
  \<^verbatim>\<open>UPDATE\<close> of the quoted table that sets the field's column, which is not quoted, to the
  rendered value where the quoted primary key column equals that of \<^verbatim>\<open>OLD\<close>, followed by
  \<^verbatim>\<open>RETURN NULL\<close>; \<^verbatim>\<open>None\<close> is rendered as \<^verbatim>\<open>NULL\<close>, a string between single quotes as it is, and
  every other value as \<^verbatim>\<open>str\<close> prints it.
\<close>

lemma SoftDelete_get_func_text:
  assumes "sd_field self = Some fld" and "field_column m fld = Some col"
  shows \<open>SoftDelete_get_func quote self m =
           Inr (''\<newline>            UPDATE '' @ quote (db_table m) @ ''\<newline>'' @
                ''            SET '' @ col @ '' = '' @ render_value (sd_value self) @ ''\<newline>'' @
                ''            WHERE '' @ quote (pk_column m) @ '' = OLD.'' @ quote (pk_column m) @
                '';\<newline>'' @
                ''            RETURN NULL;\<newline>'' @
                ''        '') \<and>
         render_value (sd_value self) =
           (case sd_value self of
              PyNone \<Rightarrow> ''NULL''
            | PyStr s \<Rightarrow> [CHR 0x27] @ s @ [CHR 0x27]
            | PyBool b \<Rightarrow> (if b then ''True'' else ''False'')
            | PyInt i \<Rightarrow> str_int i
            | PyOther printed \<Rightarrow> printed)\<close>
  using assms
  by (cases "sd_value self")
     (simp_all add: SoftDelete_get_func_def get_field_column_def SoftDelete_body_def)

section \<open>SoftDelete: the sentinel of the value argument\<close>

text \<open>
  C10. When the construction of a \<^verbatim>\<open>SoftDelete\<close> succeeds, the stored value is the argument
  whenever one is passed, also \<^verbatim>\<open>None\<close> and \<^verbatim>\<open>False\<close> (rendered as \<^verbatim>\<open>NULL\<close> and \<^verbatim>\<open>False\<close>), and
  the class attribute, \<^verbatim>\<open>False\<close> for \<^verbatim>\<open>SoftDelete\<close> itself, only when the argument is left
  out. The field is different: a falsy field argument falls back to the class attribute, so
  that passing the empty string is the same as passing nothing.
\<close>

theorem SoftDelete_init_value_sentinel:
  assumes "SoftDelete_init self nm cond fld val = Inr t"
  shows "sd_value t = (case val of None \<Rightarrow> sd_value self | Some v \<Rightarrow> v) \<and>
         sd_field t = py_or fld (sd_field self) \<and>
         sd_value SoftDelete = PyBool False \<and>
         render_value PyNone = ''NULL'' \<and>
         render_value (PyBool False) = ''False'' \<and>
         SoftDelete_init self nm cond (Some []) val = SoftDelete_init self nm cond None val"
  using assms
  by (auto simp add: SoftDelete_init_def Trigger_init_def Let_def py_or_def SoftDelete_def
      split: if_splits option.splits)

text \<open>
  Passing \<^verbatim>\<open>None\<close>, passing \<^verbatim>\<open>False\<close>, leaving the value out, and passing \<^verbatim>\<open>False\<close> with an empty
  field to a subclass whose class attributes are the field \<^verbatim>\<open>is_active\<close> and the value 1.
\<close>

theorem SoftDelete_init_value_sentinel_witness:
  "sd_value (SoftDelete\<lparr>name := Some ''soft'', sd_field := Some ''is_active'',
                        sd_value := PyNone\<rparr>) = PyNone \<and>
   sd_value (SoftDelete\<lparr>name := Some ''soft'', sd_field := Some ''is_active'',
                        sd_value := PyBool False\<rparr>) = PyBool False \<and>
   SoftDelete_init SoftDelete (Some ''soft'') None (Some ''is_active'') None =
     Inr (SoftDelete\<lparr>name := Some ''soft'', sd_field := Some ''is_active''\<rparr>) \<and>
   sd_value (SoftDelete\<lparr>name := Some ''soft'', sd_field := Some ''is_active''\<rparr>) = PyBool False \<and>
   SoftDelete_init (SoftDelete\<lparr>sd_field := Some ''is_active'', sd_value := PyInt 1\<rparr>)
       (Some ''soft'') None (Some []) (Some (PyBool False)) =
     Inr (SoftDelete\<lparr>name := Some ''soft'', sd_field := Some ''is_active'',
                      sd_value := PyBool False\<rparr>)"
proof -
  let ?none = "SoftDelete\<lparr>name := Some ''soft'', sd_field := Some ''is_active'',
                        sd_value := PyNone\<rparr>"
  let ?false = "SoftDelete\<lparr>name := Some ''soft'', sd_field := Some ''is_active'',
                        sd_value := PyBool False\<rparr>"
  let ?default = "SoftDelete\<lparr>name := Some ''soft'', sd_field := Some ''is_active''\<rparr>"
  let ?sub = "SoftDelete\<lparr>sd_field := Some ''is_active'', sd_value := PyInt 1\<rparr>"
  have a: "SoftDelete_init SoftDelete (Some ''soft'') None (Some ''is_active'') (Some PyNone) =
      Inr ?none"
    by (simp add: SoftDelete_init_def Trigger_init_def Let_def py_or_def SoftDelete_def)
  have b: "SoftDelete_init SoftDelete (Some ''soft'') None (Some ''is_active'')
      (Some (PyBool False)) = Inr ?false"
    by (simp add: SoftDelete_init_def Trigger_init_def Let_def py_or_def SoftDelete_def)
  have c: "SoftDelete_init SoftDelete (Some ''soft'') None (Some ''is_active'') None =
      Inr ?default"
    by (simp add: SoftDelete_init_def Trigger_init_def Let_def py_or_def SoftDelete_def)
  have d: "SoftDelete_init ?sub (Some ''soft'') None (Some []) (Some (PyBool False)) =
      Inr ?false"
    by (simp add: SoftDelete_init_def Trigger_init_def Let_def py_or_def SoftDelete_def)
  from SoftDelete_init_value_sentinel [OF a] SoftDelete_init_value_sentinel [OF b]
    SoftDelete_init_value_sentinel [OF c] SoftDelete_init_value_sentinel [OF d] c d
  show ?thesis by simp
qed

section \<open>UpdateSearchVector: ignoring\<close>

text \<open>
  C6. For every \<^verbatim>\<open>UpdateSearchVector\<close> trigger and every model, \<^verbatim>\<open>ignore\<close> raises a
  \<^verbatim>\<open>RuntimeError\<close> that names the class, and never returns.
\<close>

theorem UpdateSearchVector_ignore_always_raises:
  "UpdateSearchVector_ignore self m =
     Inl (RuntimeError (''Cannot ignore '' @ class_name self @ '' triggers'')) \<and>
   (\<forall>r. UpdateSearchVector_ignore self m \<noteq> Inr r)"
  by (simp add: UpdateSearchVector_ignore_def)

section \<open>UpdateSearchVector: the operation and the trigger statement\<close>

text \<open>
  C7. When an \<^verbatim>\<open>UpdateSearchVector\<close> is constructed with a non-empty list of document fields,
  its operation is \<^verbatim>\<open>Insert\<close> combined with \<^verbatim>\<open>UpdateOf\<close> exactly these fields. That operation
  covers an insert, no delete, and an update exactly when the update assigns one of the
  listed fields.
\<close>

theorem UpdateSearchVector_init_operation:
  assumes "dfs \<noteq> []"
    and "UpdateSearchVector_init self nm vf (Some dfs) cn = Inr t"
  shows "operation t = Some (Operations Insert (UpdateOf dfs)) \<and>
         document_fields t = Some dfs \<and>
         fires (Operations Insert (UpdateOf dfs)) Insert_event \<and>
         \<not> fires (Operations Insert (UpdateOf dfs)) Delete_event \<and>
         (\<forall>assigned. fires (Operations Insert (UpdateOf dfs)) (Update_event assigned) \<longleftrightarrow>
            (\<exists>c\<in>set dfs. c \<in> set assigned))"
  using assms
  by (auto simp add: UpdateSearchVector_init_def Trigger_init_def Let_def py_or_def list_ex_iff
      split: if_splits)

text \<open>
  On the model of the test migration: an update of \<^verbatim>\<open>id\<close> and \<^verbatim>\<open>body\<close> fires the trigger, an
  update of \<^verbatim>\<open>id\<close> and \<^verbatim>\<open>body_vector\<close> does not.
\<close>

theorem UpdateSearchVector_init_operation_witness:
  "UpdateSearchVector_init UpdateSearchVector (Some ''search'') (Some ''title_body_vector'')
     (Some [''title'', ''body'']) None =
     Inr (UpdateSearchVector\<lparr>name := Some ''search'',
            operation := Some (Operations Insert (UpdateOf [''title'', ''body''])),
            vector_field := Some ''title_body_vector'',
            document_fields := Some [''title'', ''body'']\<rparr>) \<and>
   fires (Operations Insert (UpdateOf [''title'', ''body''])) Insert_event \<and>
   fires (Operations Insert (UpdateOf [''title'', ''body''])) (Update_event [''id'', ''body'']) \<and>
   \<not> fires (Operations Insert (UpdateOf [''title'', ''body'']))
       (Update_event [''id'', ''body_vector'']) \<and>
   \<not> fires (Operations Insert (UpdateOf [''title'', ''body''])) Delete_event"
proof -
  let ?t = "UpdateSearchVector\<lparr>name := Some ''search'',
            operation := Some (Operations Insert (UpdateOf [''title'', ''body''])),
            vector_field := Some ''title_body_vector'',
            document_fields := Some [''title'', ''body'']\<rparr>"
  have ne: "[''title'', ''body''] \<noteq> []" by simp
  have built: "UpdateSearchVector_init UpdateSearchVector (Some ''search'')
      (Some ''title_body_vector'') (Some [''title'', ''body'']) None = Inr ?t"
    by (simp add: UpdateSearchVector_init_def Trigger_init_def Let_def py_or_def
        UpdateSearchVector_def)
  from UpdateSearchVector_init_operation [OF ne built] built show ?thesis
    by simp
qed

text \<open>
  C8. \<^verbatim>\<open>render_func\<close> returns the empty string. When the model knows the vector field and the
  document fields, \<^verbatim>\<open>render_trigger\<close> calls the base class with the function
  \<^verbatim>\<open>tsvector_update_trigger(<vector column>, <configuration>, <document columns>)\<close>, where the
  columns are those the model gives for the fields, in the order of the fields, and every
  part is quoted, whatever function the caller passed; the trigger statement of the
  specification ends with that text where it would otherwise name the generated function;
  and installing, as the specification describes it, emits no
  \<^verbatim>\<open>CREATE OR REPLACE FUNCTION\<close>.
\<close>

theorem UpdateSearchVector_render_builtin_function:
  assumes "document_fields self = Some dfs"
    and "map (field_column m) dfs = map Some dcols"
    and "vector_field self = Some vf" and "field_column m vf = Some vcol"
    and "config_name self = Some cfg"
  shows "UpdateSearchVector_render_func self m = [] \<and>
         UpdateSearchVector_render_trigger quote super_render_trigger self m function =
           super_render_trigger self m
             (Some (''tsvector_update_trigger('' @ quote vcol @ '', '' @ quote cfg @ '', '' @
                    join '', '' (map quote dcols) @ '')'')) \<and>
         UpdateSearchVector_render_trigger quote (Trigger_render_trigger quote generated)
             self m function =
           Inr (Trigger_statement_head quote self m @
                ''tsvector_update_trigger('' @ quote vcol @ '', '' @ quote cfg @ '', '' @
                join '', '' (map quote dcols) @ '')'') \<and>
         Trigger_render_trigger quote generated self m None =
           Inr (Trigger_statement_head quote self m @ generated @ ''()'') \<and>
         Trigger_install (UpdateSearchVector_render_func self m) stmt =
           [Drop_trigger_if_exists, Create_trigger stmt]"
proof -
  have cols: "get_field_columns m dfs = Inr dcols"
    using assms(2) by (simp add: get_field_columns_Inr_iff)
  with assms(1,3,4,5) show ?thesis
    by (simp add: UpdateSearchVector_render_func_def UpdateSearchVector_render_trigger_def
        get_field_column_def tsvector_update_trigger_def Trigger_render_trigger_def
        Trigger_install_def)
qed

text \<open>
  The statement for a model that stores the vector field \<^verbatim>\<open>title_body_vector\<close> in the column
  \<^verbatim>\<open>title_body_tsv\<close>, the field \<^verbatim>\<open>title\<close> in \<^verbatim>\<open>headline\<close> and the field \<^verbatim>\<open>body\<close> in
  \<^verbatim>\<open>body_text\<close>: the function is given the columns, not the field names.
\<close>

theorem UpdateSearchVector_render_builtin_function_witness:
  \<open>UpdateSearchVector_render_func
     (UpdateSearchVector\<lparr>name := Some ''search'',
        operation := Some (Operations Insert (UpdateOf [''title'', ''body''])),
        vector_field := Some ''title_body_vector'',
        document_fields := Some [''title'', ''body'']\<rparr>) search_model = [] \<and>
   UpdateSearchVector_render_trigger quote_ident (Trigger_render_trigger quote_ident ''pgtrigger_search'')
     (UpdateSearchVector\<lparr>name := Some ''search'',
        operation := Some (Operations Insert (UpdateOf [''title'', ''body''])),
        vector_field := Some ''title_body_vector'',
        document_fields := Some [''title'', ''body'']\<rparr>) search_model None =
     Inr (''CREATE TRIGGER search BEFORE INSERT OR UPDATE OF title, body '' @
          ''ON "tests_searchmodel" FOR EACH ROW EXECUTE FUNCTION '' @
          ''tsvector_update_trigger("title_body_tsv", "pg_catalog.english", "headline", "body_text")'')\<close>
proof -
  let ?t = "UpdateSearchVector\<lparr>name := Some ''search'',
        operation := Some (Operations Insert (UpdateOf [''title'', ''body''])),
        vector_field := Some ''title_body_vector'',
        document_fields := Some [''title'', ''body'']\<rparr>"
  have d: "document_fields ?t = Some [''title'', ''body'']" by simp
  have cols: "map (field_column search_model) [''title'', ''body''] =
      map Some [''headline'', ''body_text'']"
    by (simp add: search_model_def)
  have v: "vector_field ?t = Some ''title_body_vector''" by simp
  have vc: "field_column search_model ''title_body_vector'' = Some ''title_body_tsv''"
    by (simp add: search_model_def)
  have cfg: "config_name ?t = Some ''pg_catalog.english''"
    by (simp add: UpdateSearchVector_def)
  have head: "Trigger_statement_head quote_ident ?t search_model =
      ''CREATE TRIGGER search BEFORE INSERT OR UPDATE OF title, body '' @
      ''ON \"tests_searchmodel\" FOR EACH ROW EXECUTE FUNCTION ''"
    by (simp add: Trigger_statement_head_def UpdateSearchVector_def py_format_def
        quote_ident_def search_model_def)
  from UpdateSearchVector_render_builtin_function
    [OF d cols v vc cfg, of quote_ident "Trigger_render_trigger quote_ident ''pgtrigger_search''"
       None "''pgtrigger_search''"]
  show ?thesis
    by (simp add: head quote_ident_def Trigger_render_trigger_def)
qed

end
